theory Spec2Isabelle
  imports Main
begin

section \<open>The authentication service: model\<close>

text \<open>
  The service is three Python modules: \<^verbatim>\<open>app/auth.py\<close> (password hashing and tokens),
  \<^verbatim>\<open>app/database.py\<close> (the in-memory store) and \<^verbatim>\<open>app/main.py\<close> (the request handlers).
  Each function is embedded under its own name. What a function reads from outside its
  arguments is passed explicitly: the settings read from the environment (\<open>cfg\<close>), the
  bcrypt library (\<open>bc\<close>), the store (\<open>s\<close>, returned updated by the functions that write
  it), the clock (\<open>now\<close>, seconds since the epoch), the salt drawn by \<^verbatim>\<open>bcrypt.gensalt()\<close>
  and the identifier drawn by \<^verbatim>\<open>uuid.uuid4()\<close>. An \<^verbatim>\<open>HTTPException\<close> raised by a handler
  is the \<open>Inl\<close> branch of its result; so is the answer of the server to any other
  exception that leaves a handler uncaught (\<open>unhandled\<close>, status 500).
\<close>

subsection \<open>External libraries\<close>

text \<open>
  JSON values as they occur in token claims, with Python's \<^verbatim>\<open>dict.get\<close> (a missing key
  reads as \<^verbatim>\<open>None\<close>) and Python's truth value (\<^verbatim>\<open>not v\<close> holds of \<^verbatim>\<open>None\<close>, \<^verbatim>\<open>""\<close>
  and \<^verbatim>\<open>0\<close>).
\<close>

datatype jvalue = JStr string | JInt int | JNull

type_synonym claims = "string \<rightharpoonup> jvalue"

definition py_get :: "claims \<Rightarrow> string \<Rightarrow> jvalue" where
  "py_get d k = (case d k of None \<Rightarrow> JNull | Some v \<Rightarrow> v)"

fun truthy :: "jvalue \<Rightarrow> bool" where
  "truthy (JStr s) = (s \<noteq> [])"
| "truthy (JInt i) = (i \<noteq> 0)"
| "truthy JNull = False"

text \<open>
  python-jose. A token is kept symbolic: \<open>JWT c k\<close> is the string that \<^verbatim>\<open>jwt.encode(c, k)\<close>
  returns, a claim set together with the key that signed it, and \<open>Malformed\<close> is any
  other string. Decoding accepts a token only under the key that signed it (HMAC taken as
  unforgeable), rejects a subject that is not a string, and rejects an expiry that lies
  before the current second. Every failure of \<^verbatim>\<open>jwt.decode\<close> is a \<^verbatim>\<open>JWTError\<close>.
\<close>

datatype jwt = JWT claims string | Malformed string

datatype jwt_error = JWTError | JWTClaimsError | ExpiredSignatureError

definition jwt_encode :: "claims \<Rightarrow> string \<Rightarrow> jwt" where
  "jwt_encode c key = JWT c key"

fun jwt_decode :: "jwt \<Rightarrow> string \<Rightarrow> int \<Rightarrow> jwt_error + claims" where
  "jwt_decode (Malformed t) secret now = Inl JWTError"
| "jwt_decode (JWT c key) secret now =
     (if key \<noteq> secret then Inl JWTError
      else if (case c ''sub'' of None \<Rightarrow> False | Some (JStr u) \<Rightarrow> False | Some v \<Rightarrow> True)
        then Inl JWTClaimsError
      else (case c ''exp'' of
              None \<Rightarrow> Inr c
            | Some (JInt e) \<Rightarrow> if e < now then Inl ExpiredSignatureError else Inr c
            | Some v \<Rightarrow> Inl JWTClaimsError))"

text \<open>
  Python strings. A \<^verbatim>\<open>str\<close> is a sequence of code points (below 0x110000), a
  \<^verbatim>\<open>bytes\<close> value is a \<open>string\<close>. \<^verbatim>\<open>s.encode("utf-8")\<close> raises
  \<^verbatim>\<open>UnicodeEncodeError\<close> when \<^verbatim>\<open>s\<close> holds a surrogate (0xD800 to 0xDFFF), which has
  no UTF-8 form; otherwise every code point gives one to four bytes. \<open>py_str\<close> is the
  \<^verbatim>\<open>str\<close> of an ASCII literal.
\<close>

type_synonym pystr = "nat list"

datatype py_exception = UnicodeEncodeError | ValueError

definition utf8_char :: "nat \<Rightarrow> py_exception + string" where
  "utf8_char cp =
     (if cp < 128 then Inr [char_of cp]
      else if cp < 2048 then Inr [char_of (192 + cp div 64), char_of (128 + cp mod 64)]
      else if 55296 \<le> cp \<and> cp < 57344 then Inl UnicodeEncodeError
      else if cp < 65536
        then Inr [char_of (224 + cp div 4096), char_of (128 + cp div 64 mod 64),
                  char_of (128 + cp mod 64)]
      else Inr [char_of (240 + cp div 262144), char_of (128 + cp div 4096 mod 64),
                char_of (128 + cp div 64 mod 64), char_of (128 + cp mod 64)])"

fun encode_utf8 :: "pystr \<Rightarrow> py_exception + string" where
  "encode_utf8 [] = Inr []"
| "encode_utf8 (cp # cps) =
     (case utf8_char cp of
        Inl e \<Rightarrow> Inl e
      | Inr bs \<Rightarrow> (case encode_utf8 cps of Inl e \<Rightarrow> Inl e | Inr rest \<Rightarrow> Inr (bs @ rest)))"

definition py_str :: "string \<Rightarrow> pystr" where
  "py_str s = map of_char s"

text \<open>
  bcrypt. The library is a parameter: \<open>hashpw bc password salt\<close> and
  \<open>checkpw bc password hashed\<close> stand for \<^verbatim>\<open>bcrypt.hashpw\<close> and \<^verbatim>\<open>bcrypt.checkpw\<close> on
  bytes. \<^verbatim>\<open>checkpw\<close> returns a boolean or raises (\<^verbatim>\<open>ValueError\<close>).
\<close>

record bcrypt =
  hashpw :: "string \<Rightarrow> string \<Rightarrow> string"
  checkpw :: "string \<Rightarrow> string \<Rightarrow> py_exception + bool"

text \<open>\<^verbatim>\<open>fastapi.HTTPException(status_code, detail, headers)\<close>.\<close>

datatype http_exception =
  HTTPException (status_code: nat) (detail: string) (headers: "(string \<times> string) list option")

text \<open>
  No handler of the service catches anything but \<^verbatim>\<open>JWTError\<close>. An exception that is
  not an \<^verbatim>\<open>HTTPException\<close> leaves the handler and the server answers the request with
  status 500.
\<close>

definition unhandled :: "py_exception \<Rightarrow> http_exception" where
  "unhandled exc = HTTPException 500 ''Internal Server Error'' None"

subsection \<open>\<^verbatim>\<open>app/auth.py\<close>\<close>

text \<open>The module-level settings, read once from the environment.\<close>

record config =
  SECRET_KEY :: string
  REFRESH_SECRET_KEY :: string
  ACCESS_TOKEN_EXPIRE_MINUTES :: int
  REFRESH_TOKEN_EXPIRE_DAYS :: int

text \<open>
  \<open>verify_password\<close> encodes the plain password first, which raises on a password
  without a UTF-8 form, and then calls \<^verbatim>\<open>bcrypt.checkpw\<close>, which may raise too. The
  stored hash is ASCII text produced by bcrypt, held as its bytes; encoding it never fails.
  \<open>get_password_hash\<close> is called on validated passwords only (see the models), held
  as their bytes.
\<close>

definition verify_password :: "bcrypt \<Rightarrow> pystr \<Rightarrow> string \<Rightarrow> py_exception + bool" where
  "verify_password bc plain_password hashed_password =
     (case encode_utf8 plain_password of
        Inl exc \<Rightarrow> Inl exc
      | Inr password_bytes \<Rightarrow> checkpw bc password_bytes hashed_password)"

definition get_password_hash :: "bcrypt \<Rightarrow> string \<Rightarrow> string \<Rightarrow> string" where
  "get_password_hash bc password salt = hashpw bc password salt"

text \<open>
  \<open>expires_delta\<close> is a number of seconds. \<^verbatim>\<open>if expires_delta:\<close> is false for \<^verbatim>\<open>None\<close> and
  also for a zero \<^verbatim>\<open>timedelta\<close>. \<^verbatim>\<open>update\<close> overwrites an \<^verbatim>\<open>exp\<close> or \<^verbatim>\<open>type\<close> key that
  \<open>data\<close> already has.
\<close>

definition create_access_token :: "config \<Rightarrow> claims \<Rightarrow> int option \<Rightarrow> int \<Rightarrow> jwt" where
  "create_access_token cfg data expires_delta now =
     (let expire = (case expires_delta of
                      None \<Rightarrow> now + 60 * ACCESS_TOKEN_EXPIRE_MINUTES cfg
                    | Some d \<Rightarrow> if d \<noteq> 0 then now + d
                               else now + 60 * ACCESS_TOKEN_EXPIRE_MINUTES cfg);
          to_encode = data(''exp'' \<mapsto> JInt expire, ''type'' \<mapsto> JStr ''access'')
      in jwt_encode to_encode (SECRET_KEY cfg))"

definition create_refresh_token :: "config \<Rightarrow> claims \<Rightarrow> int \<Rightarrow> jwt" where
  "create_refresh_token cfg data now =
     (let expire = now + 86400 * REFRESH_TOKEN_EXPIRE_DAYS cfg;
          to_encode = data(''exp'' \<mapsto> JInt expire, ''type'' \<mapsto> JStr ''refresh'')
      in jwt_encode to_encode (REFRESH_SECRET_KEY cfg))"

text \<open>
  The \<^verbatim>\<open>HTTPException\<close> for a wrong type is raised inside the \<^verbatim>\<open>try\<close> block; it is not a
  \<^verbatim>\<open>JWTError\<close>, so the \<^verbatim>\<open>except\<close> clause lets it through.
\<close>

definition verify_token :: "config \<Rightarrow> jwt \<Rightarrow> string \<Rightarrow> int \<Rightarrow> http_exception + claims" where
  "verify_token cfg token token_type now =
     (let secret = (if token_type = ''access'' then SECRET_KEY cfg else REFRESH_SECRET_KEY cfg)
      in case jwt_decode token secret now of
           Inl err \<Rightarrow>
             Inl (HTTPException 401 ''Could not validate credentials''
                    (Some [(''WWW-Authenticate'', ''Bearer'')]))
         | Inr payload \<Rightarrow>
             if py_get payload ''type'' \<noteq> JStr token_type
             then Inl (HTTPException 401 ''Invalid token type'' None)
             else Inr payload)"

record current_user =
  cu_user_id :: jvalue
  cu_email :: jvalue

definition get_current_user :: "config \<Rightarrow> jwt \<Rightarrow> int \<Rightarrow> http_exception + current_user" where
  "get_current_user cfg token now =
     (case verify_token cfg token ''access'' now of
        Inl e \<Rightarrow> Inl e
      | Inr payload \<Rightarrow>
          (let user_id = py_get payload ''sub'';
               email = py_get payload ''email''
           in if user_id = JNull \<or> email = JNull
              then Inl (HTTPException 401 ''Could not validate credentials'' None)
              else Inr \<lparr>cu_user_id = user_id, cu_email = email\<rparr>))"

subsection \<open>\<^verbatim>\<open>app/database.py\<close>\<close>

text \<open>
  A stored user is the dictionary built by \<^verbatim>\<open>create_user\<close>; its keys are the fields of
  \<open>user\<close> (prefixed, as the response model has fields of the same names). It always
  has its seven keys, so \<^verbatim>\<open>if user:\<close> and \<^verbatim>\<open>if not user:\<close> in the handlers only
  tell a found user from \<^verbatim>\<open>None\<close>. The two module-level dictionaries are the fields of
  \<open>store\<close>.
\<close>

record user =
  user_id :: string
  user_email :: string
  user_username :: string
  user_hashed_password :: string
  user_full_name :: "string option"
  user_created_at :: int
  user_is_active :: bool

record store =
  users_db :: "string \<rightharpoonup> user"
  user_email_index :: "string \<rightharpoonup> string"

text \<open>\<^verbatim>\<open>if user_id:\<close> is false for a missing entry and for the empty string.\<close>

definition get_user_by_email :: "store \<Rightarrow> string \<Rightarrow> user option" where
  "get_user_by_email s email =
     (case user_email_index s email of
        None \<Rightarrow> None
      | Some uid \<Rightarrow> if uid \<noteq> [] then users_db s uid else None)"

text \<open>
  The handlers pass a claim of a decoded token as \<open>user_id\<close>; the keys of \<open>users_db\<close>
  are strings, so any other value finds nothing.
\<close>

definition get_user_by_id :: "store \<Rightarrow> jvalue \<Rightarrow> user option" where
  "get_user_by_id s uid = (case uid of JStr i \<Rightarrow> users_db s i | _ \<Rightarrow> None)"

definition create_user ::
  "store \<Rightarrow> string \<Rightarrow> string \<Rightarrow> string \<Rightarrow> string option \<Rightarrow> string \<Rightarrow> int \<Rightarrow> user \<times> store" where
  "create_user s email username hashed_password full_name new_id now =
     (let usr = \<lparr>user_id = new_id, user_email = email, user_username = username,
                 user_hashed_password = hashed_password, user_full_name = full_name,
                 user_created_at = now, user_is_active = True\<rparr>
      in (usr, \<lparr>users_db = (users_db s)(new_id \<mapsto> usr),
                user_email_index = (user_email_index s)(email \<mapsto> new_id)\<rparr>))"

definition update_user_password :: "store \<Rightarrow> jvalue \<Rightarrow> string \<Rightarrow> bool \<times> store" where
  "update_user_password s uid hashed_password =
     (case uid of
        JStr i \<Rightarrow>
          (case users_db s i of
             Some u \<Rightarrow>
               (True, s\<lparr>users_db := (users_db s)(i \<mapsto> u\<lparr>user_hashed_password := hashed_password\<rparr>)\<rparr>)
           | None \<Rightarrow> (False, s))
      | _ \<Rightarrow> (False, s))"

definition deactivate_user :: "store \<Rightarrow> jvalue \<Rightarrow> bool \<times> store" where
  "deactivate_user s uid =
     (case uid of
        JStr i \<Rightarrow>
          (case users_db s i of
             Some u \<Rightarrow> (True, s\<lparr>users_db := (users_db s)(i \<mapsto> u\<lparr>user_is_active := False\<rparr>)\<rparr>)
           | None \<Rightarrow> (False, s))
      | _ \<Rightarrow> (False, s))"

subsection \<open>\<^verbatim>\<open>app/models.py\<close>\<close>

text \<open>
  The request and response models. A request reaches its handler only after the
  framework has validated it against its model, so the handlers below take validated values.
  A field with a length constraint (\<^verbatim>\<open>min_length\<close>) is validated through its UTF-8
  form, so its value always has an encoding and is held here as its bytes: the passwords
  of \<^verbatim>\<open>UserCreate\<close> and \<^verbatim>\<open>new_password\<close>. A plain \<^verbatim>\<open>str\<close> field is passed on as
  received, whatever its code points: the password of \<^verbatim>\<open>UserLogin\<close> and
  \<^verbatim>\<open>old_password\<close> are \<open>pystr\<close>.
\<close>

record UserCreate =
  uc_email :: string
  uc_username :: string
  uc_password :: string
  uc_full_name :: "string option"

record UserLogin =
  ul_email :: string
  ul_password :: pystr

record UserResponse =
  resp_id :: string
  resp_email :: string
  resp_username :: string
  resp_full_name :: "string option"
  resp_created_at :: int
  resp_is_active :: bool

record Token =
  access_token :: jwt
  refresh_token_field :: jwt
  token_type :: string

record RefreshTokenRequest =
  req_refresh_token :: jwt

record ChangePassword =
  old_password :: pystr
  new_password :: string

text \<open>\<^verbatim>\<open>UserResponse(**user)\<close>: the fields of the model are read, \<^verbatim>\<open>hashed_password\<close> is dropped.\<close>

definition user_response :: "user \<Rightarrow> UserResponse" where
  "user_response u =
     \<lparr>resp_id = user_id u, resp_email = user_email u, resp_username = user_username u,
      resp_full_name = user_full_name u, resp_created_at = user_created_at u,
      resp_is_active = user_is_active u\<rparr>"

subsection \<open>\<^verbatim>\<open>app/main.py\<close>, with the in-memory store\<close>

definition token_data :: "string \<Rightarrow> string \<Rightarrow> claims" where
  "token_data uid email = [''sub'' \<mapsto> JStr uid, ''email'' \<mapsto> JStr email]"

definition register ::
  "bcrypt \<Rightarrow> store \<Rightarrow> UserCreate \<Rightarrow> string \<Rightarrow> string \<Rightarrow> int \<Rightarrow> (http_exception + UserResponse) \<times> store" where
  "register bc s user_data salt new_id now =
     (case get_user_by_email s (uc_email user_data) of
        Some existing_user \<Rightarrow> (Inl (HTTPException 400 ''Email already registered'' None), s)
      | None \<Rightarrow>
          (let hashed_password = get_password_hash bc (uc_password user_data) salt;
               (usr, s') = create_user s (uc_email user_data) (uc_username user_data)
                             hashed_password (uc_full_name user_data) new_id now
           in (Inr (user_response usr), s')))"

definition login :: "config \<Rightarrow> bcrypt \<Rightarrow> store \<Rightarrow> UserLogin \<Rightarrow> int \<Rightarrow> http_exception + Token" where
  "login cfg bc s user_credentials now =
     (case get_user_by_email s (ul_email user_credentials) of
        None \<Rightarrow> Inl (HTTPException 401 ''Incorrect email or password'' None)
      | Some usr \<Rightarrow>
          (case verify_password bc (ul_password user_credentials) (user_hashed_password usr) of
             Inl exc \<Rightarrow> Inl (unhandled exc)
           | Inr verified \<Rightarrow>
               if \<not> verified
               then Inl (HTTPException 401 ''Incorrect email or password'' None)
               else if \<not> user_is_active usr
               then Inl (HTTPException 403 ''Account is deactivated'' None)
               else
                 (let access = create_access_token cfg (token_data (user_id usr) (user_email usr))
                                 (Some (60 * ACCESS_TOKEN_EXPIRE_MINUTES cfg)) now;
                      refresh = create_refresh_token cfg (token_data (user_id usr) (user_email usr))
                                  now
                  in Inr \<lparr>access_token = access, refresh_token_field = refresh,
                          token_type = ''bearer''\<rparr>)))"

definition refresh_token ::
  "config \<Rightarrow> store \<Rightarrow> RefreshTokenRequest \<Rightarrow> int \<Rightarrow> http_exception + Token" where
  "refresh_token cfg s token_data_req now =
     (case verify_token cfg (req_refresh_token token_data_req) ''refresh'' now of
        Inl e \<Rightarrow> Inl e
      | Inr payload \<Rightarrow>
          (let uid = py_get payload ''sub'';
               email = py_get payload ''email''
           in if \<not> truthy uid \<or> \<not> truthy email
              then Inl (HTTPException 401 ''Invalid refresh token'' None)
              else
                (case get_user_by_id s uid of
                   None \<Rightarrow> Inl (HTTPException 401 ''Invalid user'' None)
                 | Some usr \<Rightarrow>
                     if \<not> user_is_active usr
                     then Inl (HTTPException 401 ''Invalid user'' None)
                     else
                       (let data = [''sub'' \<mapsto> uid, ''email'' \<mapsto> email];
                            access = create_access_token cfg data
                                       (Some (60 * ACCESS_TOKEN_EXPIRE_MINUTES cfg)) now;
                            new_refresh = create_refresh_token cfg data now
                        in Inr \<lparr>access_token = access, refresh_token_field = new_refresh,
                                token_type = ''bearer''\<rparr>))))"

definition get_current_user_info :: "store \<Rightarrow> current_user \<Rightarrow> http_exception + UserResponse" where
  "get_current_user_info s cu =
     (case get_user_by_id s (cu_user_id cu) of
        None \<Rightarrow> Inl (HTTPException 404 ''User not found'' None)
      | Some usr \<Rightarrow> Inr (user_response usr))"

definition change_password ::
  "bcrypt \<Rightarrow> store \<Rightarrow> ChangePassword \<Rightarrow> current_user \<Rightarrow> string \<Rightarrow> (http_exception + string) \<times> store" where
  "change_password bc s password_data cu salt =
     (case get_user_by_id s (cu_user_id cu) of
        None \<Rightarrow> (Inl (HTTPException 404 ''User not found'' None), s)
      | Some usr \<Rightarrow>
          (case verify_password bc (old_password password_data) (user_hashed_password usr) of
             Inl exc \<Rightarrow> (Inl (unhandled exc), s)
           | Inr verified \<Rightarrow>
               if \<not> verified
               then (Inl (HTTPException 400 ''Incorrect password'' None), s)
               else
                 (let new_hashed_password = get_password_hash bc (new_password password_data) salt;
                      (ok, s') = update_user_password s (cu_user_id cu) new_hashed_password
                  in (Inr ''Password changed successfully'', s'))))"

text \<open>
  The two protected routes as a request sees them: \<^verbatim>\<open>Depends(get_current_user)\<close> runs on
  the bearer token first, and the handler runs only if it returns.
\<close>

definition me_request :: "config \<Rightarrow> store \<Rightarrow> jwt \<Rightarrow> int \<Rightarrow> http_exception + UserResponse" where
  "me_request cfg s token now =
     (case get_current_user cfg token now of
        Inl e \<Rightarrow> Inl e
      | Inr cu \<Rightarrow> get_current_user_info s cu)"

definition change_password_request ::
  "config \<Rightarrow> bcrypt \<Rightarrow> store \<Rightarrow> jwt \<Rightarrow> ChangePassword \<Rightarrow> int \<Rightarrow> string
     \<Rightarrow> (http_exception + string) \<times> store" where
  "change_password_request cfg bc s token password_data now salt =
     (case get_current_user cfg token now of
        Inl e \<Rightarrow> (Inl e, s)
      | Inr cu \<Rightarrow> change_password bc s password_data cu salt)"

subsection \<open>Invariants of the store\<close>

text \<open>
  \<open>store_ok\<close>: the email of every stored user is indexed, and the index entry leads to a
  stored user under a non-empty identifier. It holds of the empty store and every store
  operation keeps it, also \<open>create_user\<close> called on an indexed email.
\<close>

definition store_ok :: "store \<Rightarrow> bool" where
  "store_ok s =
     (\<forall>i u. users_db s i = Some u \<longrightarrow>
        (\<exists>j. user_email_index s (user_email u) = Some j \<and> j \<noteq> [] \<and> users_db s j \<noteq> None))"

text \<open>
  \<open>index_consistent\<close>: the index and the records agree in both directions, so an email
  leads to exactly one identifier and every user is found under its own email.
\<close>

definition index_consistent :: "store \<Rightarrow> bool" where
  "index_consistent s =
     ((\<forall>i u. users_db s i = Some u \<longrightarrow>
         user_id u = i \<and> i \<noteq> [] \<and> user_email_index s (user_email u) = Some i) \<and>
      (\<forall>e i. user_email_index s e = Some i \<longrightarrow>
         (\<exists>u. users_db s i = Some u \<and> user_email u = e)))"

definition empty_store :: store where
  "empty_store = \<lparr>users_db = Map.empty, user_email_index = Map.empty\<rparr>"

subsection \<open>A concrete instance\<close>

text \<open>
  Values on which the theorems below are run: settings, a stand-in for bcrypt that
  prepends the salt, and a store holding one user.
\<close>

definition sample_config :: config where
  "sample_config =
     \<lparr>SECRET_KEY = ''k-access'', REFRESH_SECRET_KEY = ''k-refresh'',
      ACCESS_TOKEN_EXPIRE_MINUTES = 30, REFRESH_TOKEN_EXPIRE_DAYS = 7\<rparr>"

definition sample_bcrypt :: bcrypt where
  "sample_bcrypt =
     \<lparr>hashpw = (\<lambda>password salt. take 4 salt @ password),
      checkpw = (\<lambda>password hashed. Inr (take 4 hashed @ password = hashed))\<rparr>"

definition sample_user :: user where
  "sample_user =
     \<lparr>user_id = ''u1'', user_email = ''a@x.com'', user_username = ''alice'',
      user_hashed_password = ''saltpw123456'', user_full_name = None,
      user_created_at = 1000, user_is_active = True\<rparr>"

definition sample_store :: store where
  "sample_store =
     \<lparr>users_db = [''u1'' \<mapsto> sample_user], user_email_index = [''a@x.com'' \<mapsto> ''u1'']\<rparr>"

section \<open>Properties\<close>

subsection \<open>The store invariant\<close>

lemma store_okI:
  assumes "\<And>i u. users_db s i = Some u \<Longrightarrow>
             \<exists>j. user_email_index s (user_email u) = Some j \<and> j \<noteq> [] \<and> users_db s j \<noteq> None"
  shows "store_ok s"
  using assms unfolding store_ok_def by blast

lemma store_okD:
  assumes "store_ok s" and "users_db s i = Some u"
  shows "\<exists>j. user_email_index s (user_email u) = Some j \<and> j \<noteq> [] \<and> users_db s j \<noteq> None"
  using assms unfolding store_ok_def by blast

lemma get_user_by_email_of_store_ok:
  assumes "store_ok s" and "users_db s i = Some u"
  shows "\<exists>u'. get_user_by_email s (user_email u) = Some u'"
proof -
  from store_okD [OF assms] obtain j where j: "user_email_index s (user_email u) = Some j" "j \<noteq> []"
      "users_db s j \<noteq> None" by blast
  then obtain u' where "users_db s j = Some u'" by auto
  with j show ?thesis by (simp add: get_user_by_email_def)
qed

lemma store_ok_empty: "store_ok empty_store"
  by (simp add: store_ok_def empty_store_def)

lemma create_user_store_ok:
  assumes ok: "store_ok s" and nid: "new_id \<noteq> []"
  shows "store_ok (snd (create_user s email username hp fn new_id now))"
proof (rule store_okI)
  fix i u
  let ?s' = "snd (create_user s email username hp fn new_id now)"
  assume iu: "users_db ?s' i = Some u"
  have db: "users_db ?s' new_id \<noteq> None" by (simp add: create_user_def Let_def)
  have keep: "\<And>j. users_db s j \<noteq> None \<Longrightarrow> users_db ?s' j \<noteq> None"
    by (simp add: create_user_def Let_def)
  show "\<exists>j. user_email_index ?s' (user_email u) = Some j \<and> j \<noteq> [] \<and> users_db ?s' j \<noteq> None"
  proof (cases "user_email u = email")
    case True
    then have "user_email_index ?s' (user_email u) = Some new_id" by (simp add: create_user_def Let_def)
    with nid db show ?thesis by blast
  next
    case False
    with iu have old: "users_db s i = Some u"
      by (auto simp: create_user_def Let_def split: if_splits)
    from store_okD [OF ok old] obtain j where
      j: "user_email_index s (user_email u) = Some j" "j \<noteq> []" "users_db s j \<noteq> None" by blast
    from False j(1) have "user_email_index ?s' (user_email u) = Some j"
      by (simp add: create_user_def Let_def)
    with j(2) keep [OF j(3)] show ?thesis by blast
  qed
qed

lemma update_user_password_store_ok:
  assumes ok: "store_ok s"
  shows "store_ok (snd (update_user_password s uid hp))"
proof (cases "\<exists>k v. uid = JStr k \<and> users_db s k = Some v")
  case False
  then have "snd (update_user_password s uid hp) = s"
    by (auto simp: update_user_password_def split: jvalue.splits option.splits)
  with ok show ?thesis by simp
next
  case True
  then obtain k v where k: "uid = JStr k" "users_db s k = Some v" by blast
  let ?s' = "snd (update_user_password s uid hp)"
  have db: "users_db ?s' = (users_db s)(k \<mapsto> v\<lparr>user_hashed_password := hp\<rparr>)"
    and ix: "user_email_index ?s' = user_email_index s"
    using k by (simp_all add: update_user_password_def)
  show ?thesis
  proof (rule store_okI)
    fix i u
    assume iu: "users_db ?s' i = Some u"
    have "\<exists>u0. users_db s i = Some u0 \<and> user_email u0 = user_email u"
      using iu k(2) unfolding db by (cases "i = k") auto
    then obtain u0 where u0: "users_db s i = Some u0" "user_email u0 = user_email u" by blast
    from store_okD [OF ok u0(1)] u0(2) obtain j where
      j: "user_email_index s (user_email u) = Some j" "j \<noteq> []" "users_db s j \<noteq> None" by auto
    have "users_db ?s' j \<noteq> None" using j(3) unfolding db by simp
    with j(1,2) show "\<exists>j. user_email_index ?s' (user_email u) = Some j \<and> j \<noteq> [] \<and> users_db ?s' j \<noteq> None"
      unfolding ix by blast
  qed
qed

lemma deactivate_user_store_ok:
  assumes ok: "store_ok s"
  shows "store_ok (snd (deactivate_user s uid))"
proof (cases "\<exists>k v. uid = JStr k \<and> users_db s k = Some v")
  case False
  then have "snd (deactivate_user s uid) = s"
    by (auto simp: deactivate_user_def split: jvalue.splits option.splits)
  with ok show ?thesis by simp
next
  case True
  then obtain k v where k: "uid = JStr k" "users_db s k = Some v" by blast
  let ?s' = "snd (deactivate_user s uid)"
  have db: "users_db ?s' = (users_db s)(k \<mapsto> v\<lparr>user_is_active := False\<rparr>)"
    and ix: "user_email_index ?s' = user_email_index s"
    using k by (simp_all add: deactivate_user_def)
  show ?thesis
  proof (rule store_okI)
    fix i u
    assume iu: "users_db ?s' i = Some u"
    have "\<exists>u0. users_db s i = Some u0 \<and> user_email u0 = user_email u"
      using iu k(2) unfolding db by (cases "i = k") auto
    then obtain u0 where u0: "users_db s i = Some u0" "user_email u0 = user_email u" by blast
    from store_okD [OF ok u0(1)] u0(2) obtain j where
      j: "user_email_index s (user_email u) = Some j" "j \<noteq> []" "users_db s j \<noteq> None" by auto
    have "users_db ?s' j \<noteq> None" using j(3) unfolding db by simp
    with j(1,2) show "\<exists>j. user_email_index ?s' (user_email u) = Some j \<and> j \<noteq> [] \<and> users_db ?s' j \<noteq> None"
      unfolding ix by blast
  qed
qed

lemma sample_store_ok: "store_ok sample_store"
  by (simp add: store_ok_def sample_store_def sample_user_def)

subsection \<open>Token kinds\<close>

lemma verify_token_access_as_refresh:
  "\<exists>e. verify_token cfg (create_access_token cfg data expires_delta issued) ''refresh'' now = Inl e
        \<and> status_code e = 401"
  by (auto simp: verify_token_def create_access_token_def jwt_encode_def py_get_def Let_def
           split: sum.splits option.splits jvalue.splits if_splits)

lemma verify_token_refresh_as_access:
  "\<exists>e. verify_token cfg (create_refresh_token cfg data issued) ''access'' now = Inl e
        \<and> status_code e = 401"
  by (auto simp: verify_token_def create_refresh_token_def jwt_encode_def py_get_def Let_def
           split: sum.splits option.splits jvalue.splits if_splits)

text \<open>
  C1. For every user id and email, at every moment and under every setting of the two
  secrets and lifetimes: an access token verified as kind \<^verbatim>\<open>refresh\<close>, and a refresh
  token verified as kind \<^verbatim>\<open>access\<close>, is rejected with status 401. When the secrets
  differ the signature check rejects it; when they are equal the \<^verbatim>\<open>type\<close> claim does.
\<close>

theorem token_kinds_never_interchange:
  "(\<exists>e. verify_token cfg (create_access_token cfg (token_data uid email) expires_delta issued)
           ''refresh'' now = Inl e \<and> status_code e = 401) \<and>
   (\<exists>e. verify_token cfg (create_refresh_token cfg (token_data uid email) issued)
           ''access'' now = Inl e \<and> status_code e = 401)"
  using verify_token_access_as_refresh verify_token_refresh_as_access by blast

subsection \<open>Python strings\<close>

lemma encode_utf8_ascii:
  assumes "\<forall>c\<in>set s. (of_char c :: nat) < 128"
  shows "encode_utf8 (py_str s) = Inr s"
  using assms by (induction s) (simp_all add: py_str_def utf8_char_def)

lemma encode_utf8_lone_surrogate: "encode_utf8 [55296] = Inl UnicodeEncodeError"
  by (simp add: utf8_char_def)

lemma verify_password_lone_surrogate:
  "verify_password bc [55296] hashed = Inl UnicodeEncodeError"
  by (simp add: verify_password_def utf8_char_def)

lemma sample_verify_password_correct:
  "verify_password sample_bcrypt (py_str ''pw123456'') ''saltpw123456'' = Inr True"
proof -
  have "encode_utf8 (py_str ''pw123456'') = Inr ''pw123456''"
    by (rule encode_utf8_ascii) simp
  then show ?thesis by (simp add: verify_password_def sample_bcrypt_def)
qed

lemma sample_verify_password_wrong:
  "verify_password sample_bcrypt (py_str ''wrong-password'') ''saltpw123456'' = Inr False"
proof -
  have "encode_utf8 (py_str ''wrong-password'') = Inr ''wrong-password''"
    by (rule encode_utf8_ascii) simp
  then show ?thesis by (simp add: verify_password_def sample_bcrypt_def)
qed

subsection \<open>Login\<close>

text \<open>
  What \<open>login\<close> returns once the user is found, by the outcome of \<open>verify_password\<close>:
  a returned boolean decides between 401, 403 and the token pair; a raised exception
  leaves the handler.
\<close>

lemma login_unknown_email:
  assumes "get_user_by_email s (ul_email c) = None"
  shows "login cfg bc s c now = Inl (HTTPException 401 ''Incorrect email or password'' None)"
  using assms by (simp add: login_def)

lemma login_password_returned:
  assumes "get_user_by_email s (ul_email c) = Some usr"
    and "verify_password bc (ul_password c) (user_hashed_password usr) = Inr verified"
  shows "login cfg bc s c now =
           (if \<not> verified then Inl (HTTPException 401 ''Incorrect email or password'' None)
            else if \<not> user_is_active usr
            then Inl (HTTPException 403 ''Account is deactivated'' None)
            else Inr \<lparr>access_token =
                         create_access_token cfg (token_data (user_id usr) (user_email usr))
                           (Some (60 * ACCESS_TOKEN_EXPIRE_MINUTES cfg)) now,
                       refresh_token_field =
                         create_refresh_token cfg (token_data (user_id usr) (user_email usr)) now,
                       token_type = ''bearer''\<rparr>)"
  using assms by (simp add: login_def Let_def)

lemma login_password_raised:
  assumes "get_user_by_email s (ul_email c) = Some usr"
    and "verify_password bc (ul_password c) (user_hashed_password usr) = Inl exc"
  shows "login cfg bc s c now = Inl (unhandled exc)"
  using assms by (simp add: login_def)

lemma login_wrong_password_same_as_unknown_email:
  assumes "get_user_by_email s (ul_email c1) = Some usr"
    and "verify_password bc (ul_password c1) (user_hashed_password usr) = Inr False"
    and "get_user_by_email s (ul_email c2) = None"
  shows "login cfg bc s c1 now = login cfg bc s c2 now' \<and>
         login cfg bc s c1 now = Inl (HTTPException 401 ''Incorrect email or password'' None)"
  using login_password_returned [OF assms(1,2)] login_unknown_email [OF assms(3)] by simp

lemma login_inactive_user_password_returned:
  assumes "get_user_by_email s (ul_email c) = Some usr"
    and "\<not> user_is_active usr"
    and "verify_password bc (ul_password c) (user_hashed_password usr) = Inr verified"
  shows "login cfg bc s c now =
           (if verified then Inl (HTTPException 403 ''Account is deactivated'' None)
            else Inl (HTTPException 401 ''Incorrect email or password'' None))"
  using login_password_returned [OF assms(1,3)] assms(2) by simp

text \<open>
  C2. The two failures differ when \<open>verify_password\<close> raises: for an email that leads to
  a user and a password on which \<open>verify_password\<close> raises (a password with a lone
  surrogate has no UTF-8 form), the login is answered with status 500, while the same
  password with an email that leads to no user is answered with 401
  \<^verbatim>\<open>Incorrect email or password\<close>. On a password that \<open>verify_password\<close> returns false
  for, the two answers are equal (\<open>login_wrong_password_same_as_unknown_email\<close>).
\<close>

theorem login_raising_password_reveals_email:
  assumes "get_user_by_email s (ul_email c1) = Some usr"
    and "verify_password bc (ul_password c1) (user_hashed_password usr) = Inl exc"
    and "get_user_by_email s (ul_email c2) = None"
  shows "login cfg bc s c1 now = Inl (HTTPException 500 ''Internal Server Error'' None) \<and>
         login cfg bc s c2 now = Inl (HTTPException 401 ''Incorrect email or password'' None) \<and>
         login cfg bc s c1 now \<noteq> login cfg bc s c2 now"
  using login_password_raised [OF assms(1,2)] login_unknown_email [OF assms(3)]
  by (simp add: unhandled_def)

theorem login_raising_password_reveals_email_witness:
  "get_user_by_email sample_store ''a@x.com'' = Some sample_user \<and>
   verify_password sample_bcrypt [55296] (user_hashed_password sample_user) =
     Inl UnicodeEncodeError \<and>
   get_user_by_email sample_store ''nobody@x.com'' = None \<and>
   login sample_config sample_bcrypt sample_store
      \<lparr>ul_email = ''a@x.com'', ul_password = [55296]\<rparr> 2000 =
     Inl (HTTPException 500 ''Internal Server Error'' None) \<and>
   login sample_config sample_bcrypt sample_store
      \<lparr>ul_email = ''nobody@x.com'', ul_password = [55296]\<rparr> 2000 =
     Inl (HTTPException 401 ''Incorrect email or password'' None) \<and>
   login sample_config sample_bcrypt sample_store
      \<lparr>ul_email = ''a@x.com'', ul_password = [55296]\<rparr> 2000 \<noteq>
   login sample_config sample_bcrypt sample_store
      \<lparr>ul_email = ''nobody@x.com'', ul_password = [55296]\<rparr> 2000"
proof -
  have a: "get_user_by_email sample_store
             (ul_email \<lparr>ul_email = ''a@x.com'', ul_password = [55296]\<rparr>) = Some sample_user"
    by (simp add: get_user_by_email_def sample_store_def)
  have b: "verify_password sample_bcrypt
             (ul_password \<lparr>ul_email = ''a@x.com'', ul_password = [55296]\<rparr>)
             (user_hashed_password sample_user) = Inl UnicodeEncodeError"
    by (simp add: verify_password_lone_surrogate)
  have c: "get_user_by_email sample_store
             (ul_email \<lparr>ul_email = ''nobody@x.com'', ul_password = [55296]\<rparr>) = None"
    by (simp add: get_user_by_email_def sample_store_def)
  from login_raising_password_reveals_email [OF a b c, of sample_config 2000] a b c
  show ?thesis by simp
qed

text \<open>
  C5. For a user found under the login's email whose \<^verbatim>\<open>is_active\<close> is false, a login
  with a password on which \<open>verify_password\<close> raises (it is not the user's password,
  which was encoded at registration) is answered with status 500, not 401. When
  \<open>verify_password\<close> returns, a true result gives 403 \<^verbatim>\<open>Account is deactivated\<close> and a
  false one 401 (\<open>login_inactive_user_password_returned\<close>): the password is checked first.
\<close>

theorem login_inactive_user_raising_password:
  assumes "get_user_by_email s (ul_email c) = Some usr"
    and "\<not> user_is_active usr"
    and "verify_password bc (ul_password c) (user_hashed_password usr) = Inl exc"
  shows "login cfg bc s c now = Inl (HTTPException 500 ''Internal Server Error'' None) \<and>
         login cfg bc s c now \<noteq> Inl (HTTPException 401 ''Incorrect email or password'' None)"
  using login_password_raised [OF assms(1,3)] by (simp add: unhandled_def)

theorem login_inactive_user_raising_password_witness:
  "get_user_by_email (snd (deactivate_user sample_store (JStr ''u1''))) ''a@x.com'' =
     Some (sample_user\<lparr>user_is_active := False\<rparr>) \<and>
   user_is_active (sample_user\<lparr>user_is_active := False\<rparr>) = False \<and>
   verify_password sample_bcrypt [55296]
     (user_hashed_password (sample_user\<lparr>user_is_active := False\<rparr>)) = Inl UnicodeEncodeError \<and>
   login sample_config sample_bcrypt (snd (deactivate_user sample_store (JStr ''u1'')))
      \<lparr>ul_email = ''a@x.com'', ul_password = [55296]\<rparr> 2000 =
     Inl (HTTPException 500 ''Internal Server Error'' None) \<and>
   login sample_config sample_bcrypt (snd (deactivate_user sample_store (JStr ''u1'')))
      \<lparr>ul_email = ''a@x.com'', ul_password = py_str ''pw123456''\<rparr> 2000 =
     Inl (HTTPException 403 ''Account is deactivated'' None) \<and>
   login sample_config sample_bcrypt (snd (deactivate_user sample_store (JStr ''u1'')))
      \<lparr>ul_email = ''a@x.com'', ul_password = py_str ''wrong-password''\<rparr> 2000 =
     Inl (HTTPException 401 ''Incorrect email or password'' None)"
proof -
  let ?s = "snd (deactivate_user sample_store (JStr ''u1''))"
  let ?u = "sample_user\<lparr>user_is_active := False\<rparr>"
  have h: "user_hashed_password ?u = ''saltpw123456''" by (simp add: sample_user_def)
  have a: "get_user_by_email ?s ''a@x.com'' = Some ?u"
    by (simp add: get_user_by_email_def deactivate_user_def sample_store_def)
  have n: "\<not> user_is_active ?u" by simp
  have r: "verify_password sample_bcrypt [55296] (user_hashed_password ?u) = Inl UnicodeEncodeError"
    by (rule verify_password_lone_surrogate)
  have a0: "get_user_by_email ?s (ul_email \<lparr>ul_email = ''a@x.com'', ul_password = [55296]\<rparr>)
              = Some ?u" using a by simp
  have r0: "verify_password sample_bcrypt
              (ul_password \<lparr>ul_email = ''a@x.com'', ul_password = [55296]\<rparr>)
              (user_hashed_password ?u) = Inl UnicodeEncodeError" using r by simp
  have a1: "get_user_by_email ?s
              (ul_email \<lparr>ul_email = ''a@x.com'', ul_password = py_str ''pw123456''\<rparr>) = Some ?u"
    using a by simp
  have v1: "verify_password sample_bcrypt
              (ul_password \<lparr>ul_email = ''a@x.com'', ul_password = py_str ''pw123456''\<rparr>)
              (user_hashed_password ?u) = Inr True"
    using sample_verify_password_correct h by simp
  have a2: "get_user_by_email ?s
              (ul_email \<lparr>ul_email = ''a@x.com'', ul_password = py_str ''wrong-password''\<rparr>) = Some ?u"
    using a by simp
  have v2: "verify_password sample_bcrypt
              (ul_password \<lparr>ul_email = ''a@x.com'', ul_password = py_str ''wrong-password''\<rparr>)
              (user_hashed_password ?u) = Inr False"
    using sample_verify_password_wrong h by simp
  from login_inactive_user_raising_password [OF a0 n r0, of sample_config 2000]
       login_inactive_user_password_returned [OF a1 n v1, of sample_config 2000]
       login_inactive_user_password_returned [OF a2 n v2, of sample_config 2000] a r
  show ?thesis by simp
qed

subsection \<open>Registration\<close>

text \<open>
  C3. In a store that satisfies \<open>store_ok\<close> and holds a user with email \<open>E\<close>, a
  registration with email \<open>E\<close> is answered with 400 \<^verbatim>\<open>Email already registered\<close>
  whatever the username, password and full name, and the store is returned unchanged.
\<close>

theorem register_duplicate_email_conflict:
  assumes "store_ok s" and "users_db s i = Some u" and "user_email u = uc_email user_data"
  shows "register bc s user_data salt new_id now =
           (Inl (HTTPException 400 ''Email already registered'' None), s)"
proof -
  from get_user_by_email_of_store_ok [OF assms(1,2)] assms(3)
  obtain u' where "get_user_by_email s (uc_email user_data) = Some u'" by auto
  then show ?thesis by (simp add: register_def)
qed

theorem register_duplicate_email_conflict_witness:
  "store_ok sample_store \<and> users_db sample_store ''u1'' = Some sample_user \<and>
   user_email sample_user = uc_email \<lparr>uc_email = ''a@x.com'', uc_username = ''bob'',
       uc_password = ''another-password'', uc_full_name = Some ''Bob''\<rparr> \<and>
   register sample_bcrypt sample_store
      \<lparr>uc_email = ''a@x.com'', uc_username = ''bob'',
       uc_password = ''another-password'', uc_full_name = Some ''Bob''\<rparr> ''salt'' ''u2'' 2000 =
     (Inl (HTTPException 400 ''Email already registered'' None), sample_store)"
proof -
  have a: "store_ok sample_store" by (rule sample_store_ok)
  have b: "users_db sample_store ''u1'' = Some sample_user" by (simp add: sample_store_def)
  have c: "user_email sample_user = uc_email \<lparr>uc_email = ''a@x.com'', uc_username = ''bob'',
       uc_password = ''another-password'', uc_full_name = Some ''Bob''\<rparr>"
    by (simp add: sample_user_def)
  from register_duplicate_email_conflict [OF a b c] a b c show ?thesis by simp
qed

subsection \<open>Tokens of the service, verified\<close>

lemma jwt_decode_earlier:
  assumes "jwt_decode tok secret t2 = Inr p" and "t1 \<le> t2"
  shows "jwt_decode tok secret t1 = Inr p"
  using assms
  by (cases tok) (auto split: if_splits option.splits jvalue.splits)

lemma verify_token_earlier:
  assumes "verify_token cfg tok ty t2 = Inr p" and "t1 \<le> t2"
  shows "verify_token cfg tok ty t1 = Inr p"
proof -
  let ?secret = "if ty = ''access'' then SECRET_KEY cfg else REFRESH_SECRET_KEY cfg"
  from assms(1) obtain q where q: "jwt_decode tok ?secret t2 = Inr q"
    by (auto simp: verify_token_def Let_def split: sum.splits)
  from jwt_decode_earlier [OF q assms(2)] have "jwt_decode tok ?secret t1 = Inr q" .
  with q assms(1) show ?thesis by (simp add: verify_token_def Let_def)
qed

lemma verify_token_payload:
  assumes "verify_token cfg (JWT c k) ty now = Inr p"
  shows "p = c"
  using assms
  by (auto simp: verify_token_def Let_def split: sum.splits if_splits option.splits jvalue.splits)

lemma get_current_user_issued:
  assumes "verify_token cfg (create_access_token cfg (token_data U E) d issued) ''access'' now = Inr p"
  shows "get_current_user cfg (create_access_token cfg (token_data U E) d issued) now =
           Inr \<lparr>cu_user_id = JStr U, cu_email = JStr E\<rparr>"
proof -
  obtain c k where ck: "create_access_token cfg (token_data U E) d issued = JWT c k"
    and sub: "c ''sub'' = Some (JStr U)" and em: "c ''email'' = Some (JStr E)"
    by (simp add: create_access_token_def jwt_encode_def token_data_def Let_def)
  from assms ck have "p = c" using verify_token_payload by metis
  with assms sub em show ?thesis
    by (simp add: get_current_user_def py_get_def Let_def)
qed

lemma sample_token_verifies:
  "verify_token sample_config
     (create_access_token sample_config (token_data ''u1'' ''a@x.com'') (Some 1800) 1000)
     ''access'' 2500 =
   Inr ((token_data ''u1'' ''a@x.com'')(''exp'' \<mapsto> JInt 2800, ''type'' \<mapsto> JStr ''access''))"
  by (simp add: verify_token_def create_access_token_def jwt_encode_def
        token_data_def py_get_def sample_config_def Let_def)

subsection \<open>Changing the password\<close>

lemma change_password_password_returned:
  assumes "get_current_user cfg token now = Inr cu"
    and "cu_user_id cu = JStr i"
    and "users_db s i = Some usr"
    and "verify_password bc (old_password password_data) (user_hashed_password usr) = Inr verified"
  shows "change_password_request cfg bc s token password_data now salt =
           (if verified
            then (Inr ''Password changed successfully'',
                  s\<lparr>users_db := (users_db s)(i \<mapsto> usr\<lparr>user_hashed_password :=
                        get_password_hash bc (new_password password_data) salt\<rparr>)\<rparr>)
            else (Inl (HTTPException 400 ''Incorrect password'' None), s))"
  using assms
  by (simp add: change_password_request_def change_password_def get_user_by_id_def
        update_user_password_def Let_def)

lemma change_password_password_raised:
  assumes "get_current_user cfg token now = Inr cu"
    and "cu_user_id cu = JStr i"
    and "users_db s i = Some usr"
    and "verify_password bc (old_password password_data) (user_hashed_password usr) = Inl exc"
  shows "change_password_request cfg bc s token password_data now salt = (Inl (unhandled exc), s)"
  using assms
  by (simp add: change_password_request_def change_password_def get_user_by_id_def)

text \<open>
  C7. For an authenticated caller whose record exists and an \<^verbatim>\<open>old_password\<close> on which
  \<open>verify_password\<close> raises (a lone surrogate has no UTF-8 form): the request is
  answered with status 500, not 400, and the store is returned unchanged. When
  \<open>verify_password\<close> returns, a false result gives 400 \<^verbatim>\<open>Incorrect password\<close> with the
  store unchanged and a true one replaces the stored hash of that user only
  (\<open>change_password_password_returned\<close>).
\<close>

theorem change_password_raising_old_password:
  assumes "get_current_user cfg token now = Inr cu"
    and "cu_user_id cu = JStr i"
    and "users_db s i = Some usr"
    and "verify_password bc (old_password password_data) (user_hashed_password usr) = Inl exc"
  shows "change_password_request cfg bc s token password_data now salt =
           (Inl (HTTPException 500 ''Internal Server Error'' None), s) \<and>
         fst (change_password_request cfg bc s token password_data now salt) \<noteq>
           Inl (HTTPException 400 ''Incorrect password'' None)"
  using change_password_password_raised [OF assms] by (simp add: unhandled_def)

theorem change_password_raising_old_password_witness:
  "get_current_user sample_config
      (create_access_token sample_config (token_data ''u1'' ''a@x.com'') (Some 1800) 1000) 2000 =
     Inr \<lparr>cu_user_id = JStr ''u1'', cu_email = JStr ''a@x.com''\<rparr> \<and>
   users_db sample_store ''u1'' = Some sample_user \<and>
   verify_password sample_bcrypt [55296] (user_hashed_password sample_user) =
     Inl UnicodeEncodeError \<and>
   change_password_request sample_config sample_bcrypt sample_store
      (create_access_token sample_config (token_data ''u1'' ''a@x.com'') (Some 1800) 1000)
      \<lparr>old_password = [55296], new_password = ''newpw12345''\<rparr> 2000 ''tlas'' =
     (Inl (HTTPException 500 ''Internal Server Error'' None), sample_store) \<and>
   change_password_request sample_config sample_bcrypt sample_store
      (create_access_token sample_config (token_data ''u1'' ''a@x.com'') (Some 1800) 1000)
      \<lparr>old_password = py_str ''wrong-password'', new_password = ''newpw12345''\<rparr> 2000 ''tlas'' =
     (Inl (HTTPException 400 ''Incorrect password'' None), sample_store)"
proof -
  let ?tok = "create_access_token sample_config (token_data ''u1'' ''a@x.com'') (Some 1800) 1000"
  have h: "user_hashed_password sample_user = ''saltpw123456''" by (simp add: sample_user_def)
  have g: "get_current_user sample_config ?tok 2000 =
             Inr \<lparr>cu_user_id = JStr ''u1'', cu_email = JStr ''a@x.com''\<rparr>"
    by (simp add: get_current_user_def verify_token_def create_access_token_def jwt_encode_def
          token_data_def py_get_def sample_config_def Let_def)
  have i: "cu_user_id \<lparr>cu_user_id = JStr ''u1'', cu_email = JStr ''a@x.com''\<rparr> = JStr ''u1''"
    by simp
  have u: "users_db sample_store ''u1'' = Some sample_user" by (simp add: sample_store_def)
  have r: "verify_password sample_bcrypt [55296] (user_hashed_password sample_user) =
             Inl UnicodeEncodeError"
    by (rule verify_password_lone_surrogate)
  have r0: "verify_password sample_bcrypt
             (old_password \<lparr>old_password = [55296], new_password = ''newpw12345''\<rparr>)
             (user_hashed_password sample_user) = Inl UnicodeEncodeError"
    using r by simp
  have w: "verify_password sample_bcrypt
             (old_password \<lparr>old_password = py_str ''wrong-password'', new_password = ''newpw12345''\<rparr>)
             (user_hashed_password sample_user) = Inr False"
    using sample_verify_password_wrong h by simp
  from change_password_raising_old_password [OF g i u r0, of "''tlas''"]
       change_password_password_returned [OF g i u w, of "''tlas''"] g u r
  show ?thesis by simp
qed

text \<open>
  C6. An access token issued for user \<open>U\<close> that still verifies at time \<open>t2\<close> keeps
  verifying after a successful password change made with it at an earlier time \<open>t1\<close>:
  the change replaces the stored hash, the token verifies at \<open>t2\<close> as before (verification
  never reads the store), and \<^verbatim>\<open>/me\<close> with the same token answers with the user's view.
\<close>

theorem change_password_keeps_access_token:
  assumes "users_db s U = Some usr"
    and "verify_password bc (old_password password_data) (user_hashed_password usr) = Inr True"
    and "t1 \<le> t2"
    and "verify_token cfg (create_access_token cfg (token_data U E) d issued) ''access'' t2 = Inr p"
  shows "\<exists>s'. change_password_request cfg bc s (create_access_token cfg (token_data U E) d issued)
                 password_data t1 salt = (Inr ''Password changed successfully'', s') \<and>
              users_db s' U = Some (usr\<lparr>user_hashed_password :=
                 get_password_hash bc (new_password password_data) salt\<rparr>) \<and>
              verify_token cfg (create_access_token cfg (token_data U E) d issued) ''access'' t2 = Inr p \<and>
              me_request cfg s' (create_access_token cfg (token_data U E) d issued) t2 =
                 Inr (user_response usr)"
proof -
  let ?tok = "create_access_token cfg (token_data U E) d issued"
  let ?s' = "s\<lparr>users_db := (users_db s)(U \<mapsto> usr\<lparr>user_hashed_password :=
                 get_password_hash bc (new_password password_data) salt\<rparr>)\<rparr>"
  have v1: "verify_token cfg ?tok ''access'' t1 = Inr p"
    by (rule verify_token_earlier [OF assms(4) assms(3)])
  have g1: "get_current_user cfg ?tok t1 = Inr \<lparr>cu_user_id = JStr U, cu_email = JStr E\<rparr>"
    by (rule get_current_user_issued [OF v1])
  have g2: "get_current_user cfg ?tok t2 = Inr \<lparr>cu_user_id = JStr U, cu_email = JStr E\<rparr>"
    by (rule get_current_user_issued [OF assms(4)])
  have ch: "change_password_request cfg bc s ?tok password_data t1 salt =
              (Inr ''Password changed successfully'', ?s')"
    using g1 assms(1,2)
    by (simp add: change_password_request_def change_password_def get_user_by_id_def
          update_user_password_def Let_def)
  have me: "me_request cfg ?s' ?tok t2 = Inr (user_response usr)"
    using g2
    by (simp add: me_request_def get_current_user_info_def get_user_by_id_def user_response_def)
  from ch me assms(4) show ?thesis by auto
qed

theorem change_password_keeps_access_token_witness:
  "users_db sample_store ''u1'' = Some sample_user \<and>
   verify_password sample_bcrypt (py_str ''pw123456'') (user_hashed_password sample_user) =
     Inr True \<and>
   (2000::int) \<le> 2500 \<and>
   verify_token sample_config
     (create_access_token sample_config (token_data ''u1'' ''a@x.com'') (Some 1800) 1000)
     ''access'' 2500 =
     Inr ((token_data ''u1'' ''a@x.com'')(''exp'' \<mapsto> JInt 2800, ''type'' \<mapsto> JStr ''access'')) \<and>
   (\<exists>s'. change_password_request sample_config sample_bcrypt sample_store
            (create_access_token sample_config (token_data ''u1'' ''a@x.com'') (Some 1800) 1000)
            \<lparr>old_password = py_str ''pw123456'', new_password = ''newpw12345''\<rparr> 2000 ''tlas'' =
            (Inr ''Password changed successfully'', s') \<and>
          users_db s' ''u1'' = Some (sample_user\<lparr>user_hashed_password := ''tlasnewpw12345''\<rparr>) \<and>
          me_request sample_config s'
            (create_access_token sample_config (token_data ''u1'' ''a@x.com'') (Some 1800) 1000) 2500 =
            Inr (user_response sample_user))"
proof -
  have u: "users_db sample_store ''u1'' = Some sample_user" by (simp add: sample_store_def)
  have v: "verify_password sample_bcrypt
             (old_password \<lparr>old_password = py_str ''pw123456'', new_password = ''newpw12345''\<rparr>)
             (user_hashed_password sample_user) = Inr True"
    using sample_verify_password_correct by (simp add: sample_user_def)
  have le: "(2000::int) \<le> 2500" by simp
  have h: "get_password_hash sample_bcrypt
             (new_password \<lparr>old_password = py_str ''pw123456'', new_password = ''newpw12345''\<rparr>) ''tlas''
           = ''tlasnewpw12345''"
    by (simp add: get_password_hash_def sample_bcrypt_def)
  from change_password_keeps_access_token [OF u v le sample_token_verifies, of "''tlas''"]
  obtain s' where s': "change_password_request sample_config sample_bcrypt sample_store
            (create_access_token sample_config (token_data ''u1'' ''a@x.com'') (Some 1800) 1000)
            \<lparr>old_password = py_str ''pw123456'', new_password = ''newpw12345''\<rparr> 2000 ''tlas'' =
            (Inr ''Password changed successfully'', s')"
      "users_db s' ''u1'' = Some (sample_user\<lparr>user_hashed_password := ''tlasnewpw12345''\<rparr>)"
      "me_request sample_config s'
            (create_access_token sample_config (token_data ''u1'' ''a@x.com'') (Some 1800) 1000) 2500 =
            Inr (user_response sample_user)"
    unfolding h by blast
  from v have v': "verify_password sample_bcrypt (py_str ''pw123456'')
                     (user_hashed_password sample_user) = Inr True"
    by simp
  from u v' le sample_token_verifies s' show ?thesis by blast
qed

text \<open>
  C10. After \<open>deactivate_user\<close> the user's record has \<^verbatim>\<open>is_active\<close> false; with an
  access token issued before and still valid, \<^verbatim>\<open>/me\<close> answers with the view of the
  inactive user, and the password change with the correct old password succeeds and
  replaces the stored hash.
\<close>

theorem inactive_user_me_and_change_password:
  assumes "users_db s0 U = Some usr"
    and "verify_password bc (old_password password_data) (user_hashed_password usr) = Inr True"
    and "verify_token cfg (create_access_token cfg (token_data U E) d issued) ''access'' now = Inr p"
  shows "me_request cfg (snd (deactivate_user s0 (JStr U)))
           (create_access_token cfg (token_data U E) d issued) now =
           Inr (user_response (usr\<lparr>user_is_active := False\<rparr>)) \<and>
         resp_is_active (user_response (usr\<lparr>user_is_active := False\<rparr>)) = False \<and>
         (\<exists>s'. change_password_request cfg bc (snd (deactivate_user s0 (JStr U)))
                 (create_access_token cfg (token_data U E) d issued) password_data now salt =
                 (Inr ''Password changed successfully'', s') \<and>
               users_db s' U = Some (usr\<lparr>user_is_active := False, user_hashed_password :=
                 get_password_hash bc (new_password password_data) salt\<rparr>))"
proof -
  let ?tok = "create_access_token cfg (token_data U E) d issued"
  let ?s = "snd (deactivate_user s0 (JStr U))"
  have db: "users_db ?s U = Some (usr\<lparr>user_is_active := False\<rparr>)"
    using assms(1) by (simp add: deactivate_user_def)
  have g: "get_current_user cfg ?tok now = Inr \<lparr>cu_user_id = JStr U, cu_email = JStr E\<rparr>"
    by (rule get_current_user_issued [OF assms(3)])
  have me: "me_request cfg ?s ?tok now = Inr (user_response (usr\<lparr>user_is_active := False\<rparr>))"
    using g db by (simp add: me_request_def get_current_user_info_def get_user_by_id_def)
  have ch: "change_password_request cfg bc ?s ?tok password_data now salt =
              (Inr ''Password changed successfully'',
               ?s\<lparr>users_db := (users_db ?s)(U \<mapsto> usr\<lparr>user_is_active := False, user_hashed_password :=
                 get_password_hash bc (new_password password_data) salt\<rparr>)\<rparr>)"
    using g db assms(2)
    by (simp add: change_password_request_def change_password_def get_user_by_id_def
          update_user_password_def Let_def)
  from me ch show ?thesis by (auto simp: user_response_def)
qed

theorem inactive_user_me_and_change_password_witness:
  "users_db sample_store ''u1'' = Some sample_user \<and>
   verify_password sample_bcrypt (py_str ''pw123456'') (user_hashed_password sample_user) =
     Inr True \<and>
   me_request sample_config (snd (deactivate_user sample_store (JStr ''u1'')))
     (create_access_token sample_config (token_data ''u1'' ''a@x.com'') (Some 1800) 1000) 2500 =
     Inr (user_response (sample_user\<lparr>user_is_active := False\<rparr>)) \<and>
   resp_is_active (user_response (sample_user\<lparr>user_is_active := False\<rparr>)) = False \<and>
   (\<exists>s'. change_password_request sample_config sample_bcrypt
            (snd (deactivate_user sample_store (JStr ''u1'')))
            (create_access_token sample_config (token_data ''u1'' ''a@x.com'') (Some 1800) 1000)
            \<lparr>old_password = py_str ''pw123456'', new_password = ''newpw12345''\<rparr> 2500 ''tlas'' =
            (Inr ''Password changed successfully'', s') \<and>
          users_db s' ''u1'' = Some (sample_user\<lparr>user_is_active := False,
            user_hashed_password := ''tlasnewpw12345''\<rparr>))"
proof -
  have u: "users_db sample_store ''u1'' = Some sample_user" by (simp add: sample_store_def)
  have v: "verify_password sample_bcrypt
             (old_password \<lparr>old_password = py_str ''pw123456'', new_password = ''newpw12345''\<rparr>)
             (user_hashed_password sample_user) = Inr True"
    using sample_verify_password_correct by (simp add: sample_user_def)
  have h: "get_password_hash sample_bcrypt
             (new_password \<lparr>old_password = py_str ''pw123456'', new_password = ''newpw12345''\<rparr>) ''tlas''
           = ''tlasnewpw12345''"
    by (simp add: get_password_hash_def sample_bcrypt_def)
  from v have v': "verify_password sample_bcrypt (py_str ''pw123456'')
                     (user_hashed_password sample_user) = Inr True"
    by simp
  from inactive_user_me_and_change_password [OF u v sample_token_verifies, of "''tlas''"] u v'
  show ?thesis unfolding h by blast
qed

subsection \<open>The email index\<close>

lemma index_consistentD1:
  assumes "index_consistent s" and "users_db s i = Some u"
  shows "user_id u = i" and "i \<noteq> []" and "user_email_index s (user_email u) = Some i"
  using assms unfolding index_consistent_def by blast+

lemma index_consistentD2:
  assumes "index_consistent s" and "user_email_index s e = Some i"
  shows "\<exists>u. users_db s i = Some u \<and> user_email u = e"
  using assms unfolding index_consistent_def by blast

lemma index_consistent_empty: "index_consistent empty_store"
  by (simp add: index_consistent_def empty_store_def)

lemma index_consistent_store_ok:
  assumes "index_consistent s"
  shows "store_ok s"
proof (rule store_okI)
  fix i u
  assume iu: "users_db s i = Some u"
  from index_consistentD1 [OF assms iu] iu
  show "\<exists>j. user_email_index s (user_email u) = Some j \<and> j \<noteq> [] \<and> users_db s j \<noteq> None"
    by auto
qed

lemma get_user_by_email_None_index:
  assumes ic: "index_consistent s" and none: "get_user_by_email s e = None"
  shows "user_email_index s e = None"
proof (rule ccontr)
  assume "user_email_index s e \<noteq> None"
  then obtain i where i: "user_email_index s e = Some i" by auto
  from index_consistentD2 [OF ic i] obtain u where u: "users_db s i = Some u" by blast
  from index_consistentD1(2) [OF ic u] have "i \<noteq> []" .
  with i u none show False by (simp add: get_user_by_email_def)
qed

lemma create_user_fresh_index_consistent:
  assumes ic: "index_consistent s" and fresh: "users_db s new_id = None"
    and ne: "new_id \<noteq> []" and unindexed: "user_email_index s email = None"
  shows "index_consistent (snd (create_user s email username hp fn new_id now))"
proof -
  let ?usr = "\<lparr>user_id = new_id, user_email = email, user_username = username,
                 user_hashed_password = hp, user_full_name = fn,
                 user_created_at = now, user_is_active = True\<rparr>"
  let ?s' = "snd (create_user s email username hp fn new_id now)"
  have db: "users_db ?s' = (users_db s)(new_id \<mapsto> ?usr)"
    and ix: "user_email_index ?s' = (user_email_index s)(email \<mapsto> new_id)"
    by (simp_all add: create_user_def Let_def)
  have a: "user_id u = i \<and> i \<noteq> [] \<and> user_email_index ?s' (user_email u) = Some i"
    if iu: "users_db ?s' i = Some u" for i u
  proof (cases "i = new_id")
    case True
    with iu have "u = ?usr" unfolding db by simp
    with True ne show ?thesis unfolding ix by simp
  next
    case False
    with iu have old: "users_db s i = Some u" unfolding db by simp
    from index_consistentD1 [OF ic old] have d: "user_id u = i" "i \<noteq> []"
      "user_email_index s (user_email u) = Some i" .
    from d(3) unindexed have "user_email u \<noteq> email" by auto
    with d show ?thesis unfolding ix by simp
  qed
  have b: "\<exists>u. users_db ?s' i = Some u \<and> user_email u = e"
    if ei: "user_email_index ?s' e = Some i" for e i
  proof (cases "e = email")
    case True
    with ei have "i = new_id" unfolding ix by simp
    with True show ?thesis unfolding db by simp
  next
    case False
    with ei have old: "user_email_index s e = Some i" unfolding ix by simp
    from index_consistentD2 [OF ic old] obtain u where u: "users_db s i = Some u" "user_email u = e"
      by blast
    from u(1) fresh have "i \<noteq> new_id" by auto
    with u show ?thesis unfolding db by simp
  qed
  from a b show ?thesis unfolding index_consistent_def by blast
qed

lemma register_index_consistent:
  assumes ic: "index_consistent s" and fresh: "users_db s new_id = None" and ne: "new_id \<noteq> []"
  shows "index_consistent (snd (register bc s user_data salt new_id now))"
proof (cases "get_user_by_email s (uc_email user_data)")
  case (Some u)
  then have "snd (register bc s user_data salt new_id now) = s" by (simp add: register_def)
  with ic show ?thesis by simp
next
  case None
  from get_user_by_email_None_index [OF ic None]
  have un: "user_email_index s (uc_email user_data) = None" .
  have "snd (register bc s user_data salt new_id now) =
          snd (create_user s (uc_email user_data) (uc_username user_data)
                 (get_password_hash bc (uc_password user_data) salt) (uc_full_name user_data)
                 new_id now)"
    using None by (simp add: register_def Let_def split: prod.splits)
  with create_user_fresh_index_consistent [OF ic fresh ne un] show ?thesis by simp
qed

lemma sample_store_index_consistent: "index_consistent sample_store"
  by (auto simp: index_consistent_def sample_store_def sample_user_def split: if_splits)

text \<open>
  C9. \<open>create_user\<close> has no failure branch and does not look the email up. Called on a
  consistent store with the email of a stored user \<open>u1\<close> and a fresh identifier, it
  stores a second record with that email, repoints the index entry of the email to the
  new identifier and leaves the record of \<open>u1\<close> in \<open>users_db\<close>, where no lookup by
  email returns it any more; the resulting store is no longer consistent. \<open>register\<close>,
  which looks the email up first, keeps the store consistent for every request.
\<close>

theorem create_user_does_not_enforce_unique_email:
  assumes ic: "index_consistent s" and u1: "users_db s i1 = Some u1"
    and fresh: "users_db s new_id = None" and ne: "new_id \<noteq> []"
  shows "\<exists>u2 s'. create_user s (user_email u1) username hp fn new_id now = (u2, s') \<and>
           users_db s' i1 = Some u1 \<and> users_db s' new_id = Some u2 \<and> new_id \<noteq> i1 \<and>
           user_email u2 = user_email u1 \<and>
           user_email_index s' (user_email u1) = Some new_id \<and>
           get_user_by_email s' (user_email u1) = Some u2 \<and>
           (\<forall>e. get_user_by_email s' e \<noteq> Some u1) \<and>
           \<not> index_consistent s' \<and>
           index_consistent (snd (register bc s user_data salt new_id now))"
proof -
  let ?E = "user_email u1"
  let ?u2 = "\<lparr>user_id = new_id, user_email = ?E, user_username = username,
                 user_hashed_password = hp, user_full_name = fn,
                 user_created_at = now, user_is_active = True\<rparr>"
  let ?s' = "\<lparr>users_db = (users_db s)(new_id \<mapsto> ?u2),
              user_email_index = (user_email_index s)(?E \<mapsto> new_id)\<rparr>"
  have cr: "create_user s ?E username hp fn new_id now = (?u2, ?s')"
    by (simp add: create_user_def Let_def)
  from u1 fresh have neq: "new_id \<noteq> i1" by auto
  from index_consistentD1 [OF ic u1] have d1: "user_id u1 = i1" "i1 \<noteq> []"
    "user_email_index s ?E = Some i1" .
  have keep: "users_db ?s' i1 = Some u1" using u1 neq by simp
  have new: "users_db ?s' new_id = Some ?u2" by simp
  have ix: "user_email_index ?s' ?E = Some new_id" by simp
  have ge: "get_user_by_email ?s' ?E = Some ?u2" using ne by (simp add: get_user_by_email_def)
  have u2_ne: "?u2 \<noteq> u1"
  proof
    assume "?u2 = u1"
    then have "user_id ?u2 = user_id u1" by simp
    with d1(1) neq show False by simp
  qed
  have unreachable: "get_user_by_email ?s' e \<noteq> Some u1" for e
  proof (cases "e = ?E")
    case True
    with ge u2_ne show ?thesis by simp
  next
    case False
    show ?thesis
    proof
      assume g: "get_user_by_email ?s' e = Some u1"
      then obtain j where j: "user_email_index s e = Some j" "users_db ?s' j = Some u1"
        using False by (auto simp: get_user_by_email_def split: option.splits if_splits)
      from index_consistentD2 [OF ic j(1)] obtain u where u: "users_db s j = Some u" "user_email u = e"
        by blast
      from u(1) fresh have "j \<noteq> new_id" by auto
      with j(2) u(1) have "u = u1" by simp
      with u(2) False show False by simp
    qed
  qed
  have broken: "\<not> index_consistent ?s'"
  proof
    assume "index_consistent ?s'"
    from index_consistentD1(3) [OF this keep] ix neq show False by simp
  qed
  from cr keep new neq ix ge unreachable broken register_index_consistent [OF ic fresh ne]
  show ?thesis by (intro exI [of _ ?u2] exI [of _ ?s']) simp
qed

theorem create_user_does_not_enforce_unique_email_witness:
  "index_consistent sample_store \<and> users_db sample_store ''u1'' = Some sample_user \<and>
   users_db sample_store ''u2'' = None \<and> ''u2'' \<noteq> [] \<and>
   (\<exists>u2 s'. create_user sample_store (user_email sample_user) ''bob'' ''saltother'' None ''u2'' 2000
               = (u2, s') \<and>
      users_db s' ''u1'' = Some sample_user \<and> users_db s' ''u2'' = Some u2 \<and>
      user_email u2 = user_email sample_user \<and>
      user_email_index s' (user_email sample_user) = Some ''u2'' \<and>
      get_user_by_email s' (user_email sample_user) = Some u2 \<and>
      (\<forall>e. get_user_by_email s' e \<noteq> Some sample_user) \<and>
      \<not> index_consistent s')"
proof -
  have a: "index_consistent sample_store" by (rule sample_store_index_consistent)
  have b: "users_db sample_store ''u1'' = Some sample_user" by (simp add: sample_store_def)
  have c: "users_db sample_store ''u2'' = None" by (simp add: sample_store_def)
  have d: "''u2'' \<noteq> []" by simp
  from create_user_does_not_enforce_unique_email [OF a b c d, of "''bob''" "''saltother''" None 2000]
    a b c d
  show ?thesis by blast
qed

subsection \<open>Refresh\<close>

lemma refresh_token_failure_status:
  assumes "refresh_token cfg s req now = Inl e"
  shows "status_code e = 401"
  using assms
  by (auto simp: refresh_token_def verify_token_def Let_def
           split: sum.splits if_splits option.splits)

lemma refresh_token_success_user:
  assumes ok: "refresh_token cfg s \<lparr>req_refresh_token = JWT c k\<rparr> now = Inr t"
    and sub: "c ''sub'' = Some (JStr U)"
  shows "\<exists>u. users_db s U = Some u \<and> user_is_active u"
proof -
  from ok obtain p where p: "verify_token cfg (JWT c k) ''refresh'' now = Inr p"
    by (auto simp: refresh_token_def split: sum.splits)
  from verify_token_payload [OF p] have pc: "p = c" .
  from sub pc have uid: "py_get p ''sub'' = JStr U" by (simp add: py_get_def)
  from ok p uid show ?thesis
    by (auto simp: refresh_token_def get_user_by_id_def Let_def split: if_splits option.splits)
qed

lemma refresh_token_issued_success:
  assumes U: "U \<noteq> []" and E: "E \<noteq> []"
    and unexpired: "now \<le> issued + 86400 * REFRESH_TOKEN_EXPIRE_DAYS cfg"
    and u: "users_db s U = Some u" and act: "user_is_active u"
  shows "refresh_token cfg s \<lparr>req_refresh_token = create_refresh_token cfg (token_data U E) issued\<rparr> now =
           Inr \<lparr>access_token = create_access_token cfg (token_data U E)
                                 (Some (60 * ACCESS_TOKEN_EXPIRE_MINUTES cfg)) now,
                refresh_token_field = create_refresh_token cfg (token_data U E) now,
                token_type = ''bearer''\<rparr>"
proof -
  let ?c = "(token_data U E)(''exp'' \<mapsto> JInt (issued + 86400 * REFRESH_TOKEN_EXPIRE_DAYS cfg),
                             ''type'' \<mapsto> JStr ''refresh'')"
  have tok: "create_refresh_token cfg (token_data U E) issued = JWT ?c (REFRESH_SECRET_KEY cfg)"
    by (simp add: create_refresh_token_def jwt_encode_def Let_def)
  have dec: "jwt_decode (JWT ?c (REFRESH_SECRET_KEY cfg)) (REFRESH_SECRET_KEY cfg) now = Inr ?c"
    using unexpired by (simp add: token_data_def)
  have ver: "verify_token cfg (JWT ?c (REFRESH_SECRET_KEY cfg)) ''refresh'' now = Inr ?c"
    unfolding verify_token_def Let_def using dec by (simp add: py_get_def)
  have sub: "py_get ?c ''sub'' = JStr U" and em: "py_get ?c ''email'' = JStr E"
    by (simp_all add: py_get_def token_data_def)
  have data: "[''sub'' \<mapsto> JStr U, ''email'' \<mapsto> JStr E] = token_data U E"
    by (simp add: token_data_def)
  show ?thesis
    unfolding tok refresh_token_def
    using ver sub em U E u act data
    by (simp add: get_user_by_id_def Let_def)
qed

text \<open>
  C4. For every token that carries user id \<open>U\<close> in its \<^verbatim>\<open>sub\<close> claim, whatever its key
  and expiry: if the store has no record for \<open>U\<close>, or the record has \<^verbatim>\<open>is_active\<close>
  false, the refresh is answered with status 401; so it is in the store returned by
  \<open>deactivate_user\<close> for \<open>U\<close>; and a refresh that succeeds implies that the record
  exists and is active. Conversely a refresh token issued by the service for non-empty
  \<open>U\<close> and \<open>E\<close>, not yet expired, succeeds while the user exists and is active, and
  returns a new access and refresh token pair issued at the time of the call.
\<close>

theorem refresh_requires_active_user:
  assumes sub: "c ''sub'' = Some (JStr U)"
  shows "(users_db s U = None \<or> (\<exists>u. users_db s U = Some u \<and> \<not> user_is_active u) \<longrightarrow>
            (\<exists>e. refresh_token cfg s \<lparr>req_refresh_token = JWT c k\<rparr> now = Inl e \<and>
                 status_code e = 401)) \<and>
         (\<exists>e. refresh_token cfg (snd (deactivate_user s (JStr U)))
                 \<lparr>req_refresh_token = JWT c k\<rparr> now = Inl e \<and> status_code e = 401) \<and>
         (\<forall>t. refresh_token cfg s \<lparr>req_refresh_token = JWT c k\<rparr> now = Inr t \<longrightarrow>
            (\<exists>u. users_db s U = Some u \<and> user_is_active u)) \<and>
         (U \<noteq> [] \<and> E \<noteq> [] \<and> now \<le> issued + 86400 * REFRESH_TOKEN_EXPIRE_DAYS cfg \<and>
          (\<exists>u. users_db s U = Some u \<and> user_is_active u) \<longrightarrow>
            refresh_token cfg s
              \<lparr>req_refresh_token = create_refresh_token cfg (token_data U E) issued\<rparr> now =
            Inr \<lparr>access_token = create_access_token cfg (token_data U E)
                                  (Some (60 * ACCESS_TOKEN_EXPIRE_MINUTES cfg)) now,
                 refresh_token_field = create_refresh_token cfg (token_data U E) now,
                 token_type = ''bearer''\<rparr>)"
proof -
  have only_if: "\<exists>u. users_db s' U = Some u \<and> user_is_active u"
    if "refresh_token cfg s' \<lparr>req_refresh_token = JWT c k\<rparr> now = Inr t" for s' t
    using refresh_token_success_user [OF that sub] .
  have fails: "\<exists>e. refresh_token cfg s' \<lparr>req_refresh_token = JWT c k\<rparr> now = Inl e \<and>
                   status_code e = 401"
    if "\<not> (\<exists>u. users_db s' U = Some u \<and> user_is_active u)" for s'
  proof (cases "refresh_token cfg s' \<lparr>req_refresh_token = JWT c k\<rparr> now")
    case (Inl e)
    with refresh_token_failure_status [OF Inl] show ?thesis by simp
  next
    case (Inr t)
    with only_if that show ?thesis by blast
  qed
  have a: "users_db s U = None \<or> (\<exists>u. users_db s U = Some u \<and> \<not> user_is_active u) \<longrightarrow>
            (\<exists>e. refresh_token cfg s \<lparr>req_refresh_token = JWT c k\<rparr> now = Inl e \<and>
                 status_code e = 401)"
    using fails [of s] by auto
  have "\<not> (\<exists>u. users_db (snd (deactivate_user s (JStr U))) U = Some u \<and> user_is_active u)"
    by (auto simp: deactivate_user_def split: option.splits)
  from fails [OF this]
  have b: "\<exists>e. refresh_token cfg (snd (deactivate_user s (JStr U)))
                 \<lparr>req_refresh_token = JWT c k\<rparr> now = Inl e \<and> status_code e = 401" .
  have d: "U \<noteq> [] \<and> E \<noteq> [] \<and> now \<le> issued + 86400 * REFRESH_TOKEN_EXPIRE_DAYS cfg \<and>
          (\<exists>u. users_db s U = Some u \<and> user_is_active u) \<longrightarrow>
            refresh_token cfg s
              \<lparr>req_refresh_token = create_refresh_token cfg (token_data U E) issued\<rparr> now =
            Inr \<lparr>access_token = create_access_token cfg (token_data U E)
                                  (Some (60 * ACCESS_TOKEN_EXPIRE_MINUTES cfg)) now,
                 refresh_token_field = create_refresh_token cfg (token_data U E) now,
                 token_type = ''bearer''\<rparr>"
    using refresh_token_issued_success by blast
  from a b only_if d show ?thesis by blast
qed

theorem refresh_requires_active_user_witness:
  "((token_data ''u1'' ''a@x.com'')(''exp'' \<mapsto> JInt 605800, ''type'' \<mapsto> JStr ''refresh''))
      ''sub'' = Some (JStr ''u1'') \<and>
   users_db (snd (deactivate_user sample_store (JStr ''u1''))) ''u1'' =
      Some (sample_user\<lparr>user_is_active := False\<rparr>) \<and>
   (\<exists>e. refresh_token sample_config (snd (deactivate_user sample_store (JStr ''u1'')))
           \<lparr>req_refresh_token =
              JWT ((token_data ''u1'' ''a@x.com'')(''exp'' \<mapsto> JInt 605800,
                     ''type'' \<mapsto> JStr ''refresh'')) ''k-refresh''\<rparr> 2000 = Inl e \<and>
         status_code e = 401) \<and>
   users_db sample_store ''u1'' = Some sample_user \<and> user_is_active sample_user \<and>
   (2000::int) \<le> 1000 + 86400 * REFRESH_TOKEN_EXPIRE_DAYS sample_config \<and>
   refresh_token sample_config sample_store
     \<lparr>req_refresh_token = create_refresh_token sample_config (token_data ''u1'' ''a@x.com'') 1000\<rparr>
     2000 =
     Inr \<lparr>access_token = create_access_token sample_config (token_data ''u1'' ''a@x.com'')
                           (Some (60 * ACCESS_TOKEN_EXPIRE_MINUTES sample_config)) 2000,
          refresh_token_field = create_refresh_token sample_config (token_data ''u1'' ''a@x.com'') 2000,
          token_type = ''bearer''\<rparr>"
proof -
  let ?c = "(token_data ''u1'' ''a@x.com'')(''exp'' \<mapsto> JInt 605800, ''type'' \<mapsto> JStr ''refresh'')"
  let ?sD = "snd (deactivate_user sample_store (JStr ''u1''))"
  have sub: "?c ''sub'' = Some (JStr ''u1'')" by (simp add: token_data_def)
  have dead: "users_db ?sD ''u1'' = Some (sample_user\<lparr>user_is_active := False\<rparr>)"
    by (simp add: deactivate_user_def sample_store_def)
  have inactive: "\<not> user_is_active (sample_user\<lparr>user_is_active := False\<rparr>)" by simp
  have u: "users_db sample_store ''u1'' = Some sample_user" by (simp add: sample_store_def)
  have act: "user_is_active sample_user" by (simp add: sample_user_def)
  have le: "(2000::int) \<le> 1000 + 86400 * REFRESH_TOKEN_EXPIRE_DAYS sample_config"
    by (simp add: sample_config_def)
  have ne: "''u1'' \<noteq> []" "''a@x.com'' \<noteq> []" by simp_all
  note at_dead = refresh_requires_active_user [where c = ?c and U = "''u1''" and s = ?sD
      and cfg = sample_config and k = "''k-refresh''" and now = 2000, OF sub]
  note at_live = refresh_requires_active_user [where c = ?c and U = "''u1''" and s = sample_store
      and cfg = sample_config and k = "''k-refresh''" and now = 2000 and E = "''a@x.com''"
      and issued = 1000, OF sub]
  from at_dead dead inactive
  have fails: "\<exists>e. refresh_token sample_config ?sD \<lparr>req_refresh_token = JWT ?c ''k-refresh''\<rparr> 2000
                 = Inl e \<and> status_code e = 401"
    by blast
  from at_live u act le ne
  have succeeds: "refresh_token sample_config sample_store
     \<lparr>req_refresh_token = create_refresh_token sample_config (token_data ''u1'' ''a@x.com'') 1000\<rparr>
     2000 =
     Inr \<lparr>access_token = create_access_token sample_config (token_data ''u1'' ''a@x.com'')
                           (Some (60 * ACCESS_TOKEN_EXPIRE_MINUTES sample_config)) 2000,
          refresh_token_field = create_refresh_token sample_config (token_data ''u1'' ''a@x.com'') 2000,
          token_type = ''bearer''\<rparr>"
    by blast
  from sub dead fails u act le succeeds show ?thesis by blast
qed

end
